theory Spec2Isabelle
  imports Main "HOL-Library.Product_Lexorder" "HOL-Library.Multiset"
begin

section \<open>Python values used by the handlers\<close>

text \<open>
  Form text and messages are values of type \<open>string\<close>. The English literals of the
  source are written as they are; the Arabic literals are written as their UTF-8 bytes
  (they are only stored and compared, never inspected). The functions that look inside a
  string (\<open>strip\<close>, \<open>isdigit\<close>, \<open>int\<close>) are modelled on ASCII text: the
  theorems about them assume it of their input.
\<close>

definition py_truthy :: "string option \<Rightarrow> bool" where
  \<comment> \<open>truth value of an optional \<open>str\<close>: \<open>None\<close> and the empty string are false\<close>
  "py_truthy v = (case v of None \<Rightarrow> False | Some s \<Rightarrow> s \<noteq> [])"

definition py_truthy_int :: "int option \<Rightarrow> bool" where
  \<comment> \<open>truth value of an optional \<open>int\<close>: \<open>None\<close> and 0 are false\<close>
  "py_truthy_int v = (case v of None \<Rightarrow> False | Some i \<Rightarrow> i \<noteq> 0)"

definition py_or :: "string option \<Rightarrow> string \<Rightarrow> string" where
  \<comment> \<open>\<open>a or b\<close> for an optional string \<open>a\<close>\<close>
  "py_or a b = (case a of None \<Rightarrow> b | Some s \<Rightarrow> if s = [] then b else s)"

definition digit_char :: "nat \<Rightarrow> char" where
  "digit_char d = ''0123456789'' ! d"

fun str_nat :: "nat \<Rightarrow> string" where
  "str_nat n = (if n < 10 then [digit_char n] else str_nat (n div 10) @ [digit_char (n mod 10)])"

declare str_nat.simps [simp del]

definition str_int :: "int \<Rightarrow> string" where
  \<comment> \<open>\<open>str(i)\<close> of a Python int\<close>
  "str_int i = (if i < 0 then CHR ''-'' # str_nat (nat (- i)) else str_nat (nat i))"

definition zfill :: "nat \<Rightarrow> string \<Rightarrow> string" where
  \<comment> \<open>\<open>s.zfill(width)\<close>: zeros go after a leading sign\<close>
  "zfill width s =
     (if width \<le> length s then s
      else (case s of
              [] \<Rightarrow> replicate width (CHR ''0'')
            | c # rest \<Rightarrow>
                if c = CHR ''+'' \<or> c = CHR ''-''
                then c # replicate (width - length s) (CHR ''0'') @ rest
                else replicate (width - length s) (CHR ''0'') @ s))"

definition replace_space :: "string \<Rightarrow> string" where
  \<comment> \<open>\<open>s.replace(' ', '_')\<close>\<close>
  "replace_space s = map (\<lambda>c. if c = CHR '' '' then CHR ''_'' else c) s"

definition basename :: "string \<Rightarrow> string" where
  \<comment> \<open>\<open>os.path.basename\<close> (POSIX): what follows the last slash\<close>
  "basename p = rev (takeWhile (\<lambda>c. c \<noteq> CHR ''/'') (rev p))"

definition path_join :: "string \<Rightarrow> string \<Rightarrow> string" where
  \<comment> \<open>\<open>os.path.join(a, b)\<close> (POSIX)\<close>
  "path_join a b =
     (if b \<noteq> [] \<and> hd b = CHR ''/'' then b
      else if a = [] \<or> last a = CHR ''/'' then a @ b
      else a @ ''/'' @ b)"

record datetime =
  year :: nat
  month :: nat
  day :: nat
  hour :: nat
  minute :: nat
  second :: nat
  microsecond :: nat

definition dt_key :: "datetime \<Rightarrow> nat \<times> nat \<times> nat \<times> nat \<times> nat \<times> nat \<times> nat" where
  \<comment> \<open>datetimes compare field by field, the year first\<close>
  "dt_key t = (year t, month t, day t, hour t, minute t, second t, microsecond t)"

definition strftime_Ymd :: "datetime \<Rightarrow> string" where
  \<comment> \<open>\<open>strftime('%Y%m%d')\<close>, the year on four digits\<close>
  "strftime_Ymd t =
     zfill 4 (str_nat (year t)) @ zfill 2 (str_nat (month t)) @ zfill 2 (str_nat (day t))"

definition strftime_YmdHMS :: "datetime \<Rightarrow> string" where
  \<comment> \<open>\<open>strftime('%Y%m%d%H%M%S')\<close>\<close>
  "strftime_YmdHMS t =
     strftime_Ymd t @ zfill 2 (str_nat (hour t)) @ zfill 2 (str_nat (minute t))
       @ zfill 2 (str_nat (second t))"

subsection \<open>The id lists of the form: \<open>parse_list\<close>\<close>

fun split_on :: "char \<Rightarrow> string \<Rightarrow> string list" where
  \<comment> \<open>\<open>s.split(sep)\<close> for a one-character separator: always at least one piece\<close>
  "split_on sep [] = [[]]"
| "split_on sep (c # cs) =
     (if c = sep then [] # split_on sep cs
      else (case split_on sep cs of
              [] \<Rightarrow> [[c]]
            | p # ps \<Rightarrow> (c # p) # ps))"

definition isspace :: "char \<Rightarrow> bool" where
  \<comment> \<open>the ASCII characters \<open>str.isspace\<close> accepts: TAB, LF, VT, FF, CR, FS, GS, RS, US, space\<close>
  "isspace c = (c \<in> set [CHR 0x09, CHR 0x0A, CHR 0x0B, CHR 0x0C, CHR 0x0D,
                          CHR 0x1C, CHR 0x1D, CHR 0x1E, CHR 0x1F, CHR 0x20])"

definition strip :: "string \<Rightarrow> string" where
  \<comment> \<open>\<open>s.strip()\<close>\<close>
  "strip s = rev (dropWhile isspace (rev (dropWhile isspace s)))"

definition isdigit_char :: "char \<Rightarrow> bool" where
  "isdigit_char c = (c \<in> set ''0123456789'')"

definition isdigit :: "string \<Rightarrow> bool" where
  \<comment> \<open>\<open>s.isdigit()\<close>: not empty, and digits only\<close>
  "isdigit s = (s \<noteq> [] \<and> list_all isdigit_char s)"

definition digit_val :: "char \<Rightarrow> int" where
  "digit_val c = int (of_char c) - 48"

definition int_of_str :: "string \<Rightarrow> int" where
  \<comment> \<open>\<open>int(s)\<close> for a string of decimal digits\<close>
  "int_of_str s = foldl (\<lambda>acc c. 10 * acc + digit_val c) 0 s"

definition parse_list :: "string option \<Rightarrow> int list" where
  \<comment> \<open>\<open>[int(x.strip()) for x in v.split(",") if x.strip().isdigit()] if v else []\<close>\<close>
  "parse_list v =
     (case v of
        None \<Rightarrow> []
      | Some s \<Rightarrow>
          if s = [] then []
          else map (\<lambda>x. int_of_str (strip x)) (filter (\<lambda>x. isdigit (strip x)) (split_on (CHR '','') s)))"

section \<open>utils/response.py\<close>

text \<open>
  A response is a Python dict with string keys, and so is every payload the handlers put
  in it. A dict is modelled as the list of its items in insertion order; \<open>map_of\<close>
  reads a key.
\<close>

datatype json =
    JNone
  | JBool bool
  | JInt int
  | JStr string
  | JTime datetime
  | JList "json list"
  | JDict "(string \<times> json) list"

type_synonym envelope = "(string \<times> json) list"

definition j_str :: "string option \<Rightarrow> json" where
  "j_str v = (case v of None \<Rightarrow> JNone | Some s \<Rightarrow> JStr s)"

definition j_int :: "int option \<Rightarrow> json" where
  "j_int v = (case v of None \<Rightarrow> JNone | Some i \<Rightarrow> JInt i)"

definition j_time :: "datetime option \<Rightarrow> json" where
  "j_time v = (case v of None \<Rightarrow> JNone | Some t \<Rightarrow> JTime t)"

definition j_data :: "json option \<Rightarrow> json" where
  "j_data v = (case v of None \<Rightarrow> JNone | Some d \<Rightarrow> d)"

definition success_response :: "string \<Rightarrow> string option \<Rightarrow> json option \<Rightarrow> envelope" where
  "success_response message_en message_ar data =
     [(''success'', JBool True),
      (''message'', JStr message_en),
      (''message_ar'', JStr (py_or message_ar message_en)),
      (''data'', j_data data)]"

definition error_response :: "string \<Rightarrow> string option \<Rightarrow> string option \<Rightarrow> envelope" where
  "error_response message_en message_ar error_code =
     [(''success'', JBool False),
      (''message'', JStr message_en),
      (''message_ar'', JStr (py_or message_ar message_en)),
      (''error_code'', j_str error_code)]"


section \<open>The tables\<close>

text \<open>
  The model classes (app/models) are not part of the sources at hand; each record has the
  columns the handlers read or write. A column the handlers test for \<open>None\<close> is an
  option. \<open>Id\<close> (\<open>UserID\<close> for users) is the primary key.
\<close>

record Status =
  Id :: int
  Name :: string
  Name_Ar :: string

record Category =
  Id :: int
  Name :: string
  Name_Ar :: string

record ComplaintScreen =
  Id :: int
  Name :: string
  Name_Ar :: string

record RequestInformation =
  Id :: int
  Name :: string
  Name_Ar :: string

record Format =
  Id :: int
  Name :: string

record Projection =
  Id :: int
  Name :: string

record User =
  UserID :: int
  RoleID :: "int option"
  Email :: "string option"
  FirstName :: "string option"

record Request =
  Id :: int
  UserId :: "int option"
  CategoryId :: "int option"
  ComplaintScreenId :: "int option"
  Subject :: "string option"
  Body :: "string option"
  AssignedRoleId :: "int option"
  RequestNumber :: string
  StatusId :: "int option"
  CreatedAt :: datetime
  AttachPath :: "string option"
  CreatedByUserID :: "int option"
  UpdatedAt :: "datetime option"
  UpdatedByUserID :: "int option"

record RequestData =
  RequestId :: int
  ProspectiveName :: "string option"
  Coordinate_TopLeft :: "string option"
  Coordinate_BottomRight :: "string option"
  ProjectionId :: "int option"
  OtherSpecification :: "string option"
  OtherFormat :: "string option"
  IntendedPurpose :: "string option"
  RequirementsDetails :: "string option"
  CreatedAt :: datetime

record Reply =
  Id :: int
  RequestId :: int
  Subject :: "string option"
  Body :: "string option"
  AttachmentPath :: "string option"
  ResponderUserId :: "int option"
  CreatedAt :: datetime
  CreatedByUserID :: "int option"
  IsDeleted :: "bool option"

text \<open>
  Modelled from the spec: the declaration of \<open>Reply\<close> (app/models/requests.py) is
  missing, and with it the value \<open>IsDeleted\<close> takes when a reply is inserted without
  one. The spec has replies "soft-deletable by flag" and the detail view return the
  "active ones only": a new reply is active.
\<close>

definition Reply_IsDeleted_default :: "bool option" where
  "Reply_IsDeleted_default = Some False"

text \<open>
  The database: one list of rows per table, in insertion order, the two association
  tables as lists of pairs (request id, other id), and the counters from which the
  database numbers new requests and replies. \<open>files\<close> is the attachment store, from
  path to content.
\<close>

record db =
  Requests :: "Request list"
  Requests_identity :: int
  RequestDatas :: "RequestData list"
  Request_RequestInformation :: "(int \<times> int) list"
  Request_Format :: "(int \<times> int) list"
  Replies :: "Reply list"
  Replies_identity :: int
  Users :: "User list"
  Statuses :: "Status list"
  Categories :: "Category list"
  ComplaintScreens :: "ComplaintScreen list"
  RequestInformations :: "RequestInformation list"
  Formats :: "Format list"
  Projections :: "Projection list"
  files :: "string \<rightharpoonup> string"

text \<open>
  \<open>query.filter(...).first()\<close> is \<open>find\<close>. The constants of app/utils/email.py are
  parameters.
\<close>

record settings =
  REQUEST_DIR :: string
  ADMIN_UPLOAD_DIR :: string
  SYSTEM_EMAIL :: string

text \<open>
  A background task: the function scheduled, with its subject, its recipient and, for
  \<open>send_email_with_attachment\<close>, the attachment path. The HTML body is a template
  filled with the same values; it is not modelled.
\<close>

datatype task =
    send_email string "string option"
  | send_email_with_attachment string "string option" string
  | send_reply_email string "string option"

datatype exn =
    HTTPException nat string
  | RequestValidationError

datatype 'a outcome = Raised exn | Returned 'a

section \<open>routers/admin.py: the dependencies\<close>

definition get_current_user :: "int \<Rightarrow> db \<Rightarrow> exn + User" where
  \<comment> \<open>the argument is \<open>payload["user_id"]\<close> of a token that \<open>JWTBearer\<close> accepted\<close>
  "get_current_user user_id db =
     (case find (\<lambda>u. UserID u = user_id) (Users db) of
        None \<Rightarrow> Inl (HTTPException 401 ''User not found'')
      | Some user \<Rightarrow> Inr user)"

definition require_admin :: "int \<Rightarrow> db \<Rightarrow> exn + User" where
  "require_admin user_id db =
     (case get_current_user user_id db of
        Inl e \<Rightarrow> Inl e
      | Inr user \<Rightarrow>
          if RoleID user \<noteq> Some 1 then Inl (HTTPException 403 ''Admins only'')
          else Inr user)"

section \<open>routers/admin.py: assign a role to a request\<close>

definition Invalid_ProjectionId_ar :: string where
  "Invalid_ProjectionId_ar =
    [CHR 0xD9, CHR 0x85, CHR 0xD8, CHR 0xB9, CHR 0xD8, CHR 0xB1, CHR 0xD9, CHR 0x81,
     CHR 0x20, CHR 0xD8, CHR 0xA7, CHR 0xD9, CHR 0x84, CHR 0xD8, CHR 0xA5, CHR 0xD8,
     CHR 0xB3, CHR 0xD9, CHR 0x82, CHR 0xD8, CHR 0xA7, CHR 0xD8, CHR 0xB7, CHR 0x20,
     CHR 0xD8, CHR 0xBA, CHR 0xD9, CHR 0x8A, CHR 0xD8, CHR 0xB1, CHR 0x20, CHR 0xD8,
     CHR 0xB5, CHR 0xD8, CHR 0xA7, CHR 0xD9, CHR 0x84, CHR 0xD8, CHR 0xAD]"

definition Request_created_ar :: string where
  "Request_created_ar =
    [CHR 0xD8, CHR 0xAA, CHR 0xD9, CHR 0x85, CHR 0x20, CHR 0xD8, CHR 0xA5, CHR 0xD9,
     CHR 0x86, CHR 0xD8, CHR 0xB4, CHR 0xD8, CHR 0xA7, CHR 0xD8, CHR 0xA1, CHR 0x20,
     CHR 0xD8, CHR 0xA7, CHR 0xD9, CHR 0x84, CHR 0xD8, CHR 0xB7, CHR 0xD9, CHR 0x84,
     CHR 0xD8, CHR 0xA8, CHR 0x20, CHR 0xD8, CHR 0xA8, CHR 0xD9, CHR 0x86, CHR 0xD8,
     CHR 0xAC, CHR 0xD8, CHR 0xA7, CHR 0xD8, CHR 0xAD]"

definition Request_not_found_ar :: string where
  "Request_not_found_ar =
    [CHR 0xD8, CHR 0xA7, CHR 0xD9, CHR 0x84, CHR 0xD8, CHR 0xB7, CHR 0xD9, CHR 0x84,
     CHR 0xD8, CHR 0xA8, CHR 0x20, CHR 0xD8, CHR 0xBA, CHR 0xD9, CHR 0x8A, CHR 0xD8,
     CHR 0xB1, CHR 0x20, CHR 0xD9, CHR 0x85, CHR 0xD9, CHR 0x88, CHR 0xD8, CHR 0xAC,
     CHR 0xD9, CHR 0x88, CHR 0xD8, CHR 0xAF]"

definition Request_assigned_ar :: string where
  "Request_assigned_ar =
    [CHR 0xD8, CHR 0xAA, CHR 0xD9, CHR 0x85, CHR 0x20, CHR 0xD8, CHR 0xAA, CHR 0xD8,
     CHR 0xB9, CHR 0xD9, CHR 0x8A, CHR 0xD9, CHR 0x8A, CHR 0xD9, CHR 0x86, CHR 0x20,
     CHR 0xD8, CHR 0xA7, CHR 0xD9, CHR 0x84, CHR 0xD8, CHR 0xB7, CHR 0xD9, CHR 0x84,
     CHR 0xD8, CHR 0xA8, CHR 0x20, CHR 0xD8, CHR 0xA8, CHR 0xD9, CHR 0x86, CHR 0xD8,
     CHR 0xAC, CHR 0xD8, CHR 0xA7, CHR 0xD8, CHR 0xAD]"

definition Requests_fetched_ar :: string where
  "Requests_fetched_ar =
    [CHR 0xD8, CHR 0xAA, CHR 0xD9, CHR 0x85, CHR 0x20, CHR 0xD8, CHR 0xAC, CHR 0xD9,
     CHR 0x84, CHR 0xD8, CHR 0xA8, CHR 0x20, CHR 0xD8, CHR 0xA7, CHR 0xD9, CHR 0x84,
     CHR 0xD8, CHR 0xB7, CHR 0xD9, CHR 0x84, CHR 0xD8, CHR 0xA8, CHR 0xD8, CHR 0xA7,
     CHR 0xD8, CHR 0xAA, CHR 0x20, CHR 0xD8, CHR 0xA8, CHR 0xD9, CHR 0x86, CHR 0xD8,
     CHR 0xAC, CHR 0xD8, CHR 0xA7, CHR 0xD8, CHR 0xAD]"

definition Request_details_fetched_ar :: string where
  "Request_details_fetched_ar =
    [CHR 0xD8, CHR 0xAA, CHR 0xD9, CHR 0x85, CHR 0x20, CHR 0xD8, CHR 0xAC, CHR 0xD9,
     CHR 0x84, CHR 0xD8, CHR 0xA8, CHR 0x20, CHR 0xD8, CHR 0xAA, CHR 0xD9, CHR 0x81,
     CHR 0xD8, CHR 0xA7, CHR 0xD8, CHR 0xB5, CHR 0xD9, CHR 0x8A, CHR 0xD9, CHR 0x84,
     CHR 0x20, CHR 0xD8, CHR 0xA7, CHR 0xD9, CHR 0x84, CHR 0xD8, CHR 0xB7, CHR 0xD9,
     CHR 0x84, CHR 0xD8, CHR 0xA8, CHR 0x20, CHR 0xD8, CHR 0xA8, CHR 0xD9, CHR 0x86,
     CHR 0xD8, CHR 0xAC, CHR 0xD8, CHR 0xA7, CHR 0xD8, CHR 0xAD]"

definition Owner_email_not_found_ar :: string where
  "Owner_email_not_found_ar =
    [CHR 0xD8, CHR 0xA8, CHR 0xD8, CHR 0xB1, CHR 0xD9, CHR 0x8A, CHR 0xD8, CHR 0xAF,
     CHR 0x20, CHR 0xD8, CHR 0xB5, CHR 0xD8, CHR 0xA7, CHR 0xD8, CHR 0xAD, CHR 0xD8,
     CHR 0xA8, CHR 0x20, CHR 0xD8, CHR 0xA7, CHR 0xD9, CHR 0x84, CHR 0xD8, CHR 0xB7,
     CHR 0xD9, CHR 0x84, CHR 0xD8, CHR 0xA8, CHR 0x20, CHR 0xD8, CHR 0xBA, CHR 0xD9,
     CHR 0x8A, CHR 0xD8, CHR 0xB1, CHR 0x20, CHR 0xD9, CHR 0x85, CHR 0xD9, CHR 0x88,
     CHR 0xD8, CHR 0xAC, CHR 0xD9, CHR 0x88, CHR 0xD8, CHR 0xAF]"

definition Reply_sent_ar :: string where
  "Reply_sent_ar =
    [CHR 0xD8, CHR 0xAA, CHR 0xD9, CHR 0x85, CHR 0x20, CHR 0xD8, CHR 0xA5, CHR 0xD8,
     CHR 0xB1, CHR 0xD8, CHR 0xB3, CHR 0xD8, CHR 0xA7, CHR 0xD9, CHR 0x84, CHR 0x20,
     CHR 0xD8, CHR 0xA7, CHR 0xD9, CHR 0x84, CHR 0xD8, CHR 0xB1, CHR 0xD8, CHR 0xAF,
     CHR 0x20, CHR 0xD8, CHR 0xA8, CHR 0xD9, CHR 0x86, CHR 0xD8, CHR 0xAC, CHR 0xD8,
     CHR 0xA7, CHR 0xD8, CHR 0xAD]"

definition assign_request :: "int \<Rightarrow> int \<Rightarrow> User \<Rightarrow> db \<Rightarrow> db \<times> envelope" where
  "assign_request request_id role_id admin db =
     (case find (\<lambda>r. Request.Id r = request_id) (Requests db) of
        None \<Rightarrow>
          (db, error_response ''Request not found'' (Some Request_not_found_ar)
                 (Some ''REQUEST_NOT_FOUND''))
      | Some req \<Rightarrow>
          (db\<lparr>Requests :=
                map (\<lambda>r. if Request.Id r = Request.Id req
                          then r\<lparr>AssignedRoleId := Some role_id\<rparr> else r)
                  (Requests db)\<rparr>,
           success_response ''Request assigned successfully'' (Some Request_assigned_ar)
             (Some (JDict [(''request_id'', JInt (Request.Id req))]))))"

definition route_assign_request :: "int \<Rightarrow> int \<Rightarrow> int \<Rightarrow> db \<Rightarrow> db \<times> envelope outcome" where
  \<comment> \<open>\<open>POST /admin/assign_request\<close>: the dependency \<open>require_admin\<close>, then the handler\<close>
  "route_assign_request token_user_id request_id role_id db =
     (case require_admin token_user_id db of
        Inl e \<Rightarrow> (db, Raised e)
      | Inr admin \<Rightarrow>
          (case assign_request request_id role_id admin db of
             (db', response) \<Rightarrow> (db', Returned response)))"

section \<open>routers/admin.py: the listing\<close>

definition outer_join :: "int option \<Rightarrow> ('a \<Rightarrow> int) \<Rightarrow> 'a list \<Rightarrow> 'a option" where
  \<comment> \<open>the row a left outer join on a primary key adds: none for \<open>NULL\<close> or an unknown id\<close>
  "outer_join fk pk rows = (case fk of None \<Rightarrow> None | Some i \<Rightarrow> find (\<lambda>x. pk x = i) rows)"

definition order_by_CreatedAt_desc :: "Request list \<Rightarrow> Request list" where
  \<comment> \<open>\<open>order_by(Request.CreatedAt.desc())\<close>; the order of rows created at the same
      instant is the database's choice, here the later row first\<close>
  "order_by_CreatedAt_desc rs = rev (sort_key (\<lambda>r. dt_key (Request.CreatedAt r)) rs)"

definition list_row :: "db \<Rightarrow> Request \<Rightarrow> (string \<times> json) list" where
  \<comment> \<open>the dict appended to \<open>results\<close> for one row of the query\<close>
  "list_row db req =
     (let status = outer_join (StatusId req) Status.Id (Statuses db);
          category = outer_join (Request.CategoryId req) Category.Id (Categories db);
          user = outer_join (UserId req) UserID (Users db)
      in
        [(''id'', JInt (Request.Id req)),
         (''number'', JStr (RequestNumber req)),
         (''created_at'', JTime (Request.CreatedAt req)),
         (''status_name_en'', j_str (map_option Status.Name status)),
         (''status_name_ar'', j_str (map_option Status.Name_Ar status)),
         (''type_name_en'', j_str (map_option Category.Name category)),
         (''type_name_ar'', j_str (map_option Category.Name_Ar category)),
         (''user_email'', j_str (Option.bind user Email)),
         (''subject'', j_str (Request.Subject req)),
         (''body'', j_str (Request.Body req)),
         (''AssignedRoleId'', j_int (AssignedRoleId req))])"

definition list_requests :: "int \<Rightarrow> int \<Rightarrow> User \<Rightarrow> db \<Rightarrow> db \<times> envelope" where
  "list_requests page limit admin db =
     (let skip = (page - 1) * limit;
          base_query = order_by_CreatedAt_desc (Requests db);
          paged_requests = take (nat limit) (drop (nat skip) base_query);
          total_requests = length (Requests db);
          results = map (\<lambda>req. JDict (list_row db req)) paged_requests;
          payload =
            [(''page'', JInt page),
             (''limit'', JInt limit),
             (''count'', JInt (int (length results))),
             (''total'', JInt (int total_requests)),
             (''requests'', JList results)]
      in (db, success_response ''Requests fetched successfully'' (Some Requests_fetched_ar)
                (Some (JDict payload))))"

definition route_list_requests :: "int \<Rightarrow> int \<Rightarrow> int \<Rightarrow> db \<Rightarrow> db \<times> envelope outcome" where
  \<comment> \<open>\<open>GET /admin/requests\<close>: the dependency \<open>require_admin\<close>, then the bounds
      \<open>Query(ge=1)\<close> and \<open>Query(ge=1, le=200)\<close>, then the handler\<close>
  "route_list_requests token_user_id page limit db =
     (case require_admin token_user_id db of
        Inl e \<Rightarrow> (db, Raised e)
      | Inr admin \<Rightarrow>
          if \<not> (1 \<le> page \<and> 1 \<le> limit \<and> limit \<le> 200) then (db, Raised RequestValidationError)
          else (case list_requests page limit admin db of
                  (db', response) \<Rightarrow> (db', Returned response)))"

section \<open>routers/admin.py: the details of one request\<close>

definition lookup_if :: "int option \<Rightarrow> ('a \<Rightarrow> int) \<Rightarrow> 'a list \<Rightarrow> 'a option" where
  \<comment> \<open>\<open>db.query(T).filter(T.Id == v).first() if v else None\<close>\<close>
  "lookup_if v pk rows = (if py_truthy_int v then find (\<lambda>x. Some (pk x) = v) rows else None)"

definition labels :: "(string \<times> string) option \<Rightarrow> json" where
  \<comment> \<open>\<open>{"Name_ar": x.Name_Ar, "Name_En": x.Name} if x else {}\<close>, from the pair (Name_Ar, Name)\<close>
  "labels x =
     (case x of
        None \<Rightarrow> JDict []
      | Some (name_ar, name) \<Rightarrow> JDict [(''Name_ar'', JStr name_ar), (''Name_En'', JStr name)])"

definition joined :: "int \<Rightarrow> (int \<times> int) list \<Rightarrow> ('a \<Rightarrow> int) \<Rightarrow> 'a list \<Rightarrow> 'a list" where
  \<comment> \<open>\<open>db.query(T).join(A, A.c.OtherId == T.Id).filter(A.c.RequestId == rid).all()\<close>:
      the rows of T that an association row of the request names; a query for one mapped
      class returns each of its rows once\<close>
  "joined rid assoc pk rows =
     remdups (concat (map (\<lambda>a. filter (\<lambda>x. pk x = snd a) rows)
                          (filter (\<lambda>a. fst a = rid) assoc)))"

definition reply_view :: "Reply \<Rightarrow> json" where
  "reply_view reply =
     JDict
       [(''id'', JInt (Reply.Id reply)),
        (''subject'', j_str (Reply.Subject reply)),
        (''body'', j_str (Reply.Body reply)),
        (''attachment_path'', j_str (AttachmentPath reply)),
        (''created_at'', JTime (Reply.CreatedAt reply)),
        (''created_by'', j_int (Reply.CreatedByUserID reply)),
        (''responder_user_id'', j_int (ResponderUserId reply))]"

definition request_data_details :: "db \<Rightarrow> Request \<Rightarrow> Category option \<Rightarrow> (string \<times> json) list" where
  "request_data_details db req category =
     (case category of
        None \<Rightarrow> []
      | Some c \<Rightarrow>
          if Category.Id c = 8 then
            (case find (\<lambda>rd. RequestData.RequestId rd = Request.Id req) (RequestDatas db) of
               None \<Rightarrow> []
             | Some rd \<Rightarrow>
                 (let projection = lookup_if (ProjectionId rd) Projection.Id (Projections db)
                  in [(''prospective_name'', j_str (ProspectiveName rd)),
                      (''coordinates'',
                         if py_truthy (Coordinate_TopLeft rd) \<or> py_truthy (Coordinate_BottomRight rd)
                         then JDict [(''top_left'', j_str (Coordinate_TopLeft rd)),
                                     (''bottom_right'', j_str (Coordinate_BottomRight rd))]
                         else JDict []),
                      (''projection'', j_str (map_option Projection.Name projection)),
                      (''other_specification'', j_str (OtherSpecification rd)),
                      (''other_format'', j_str (OtherFormat rd)),
                      (''intended_purpose'', j_str (IntendedPurpose rd)),
                      (''requirements_details'', j_str (RequirementsDetails rd)),
                      (''created_at'', JTime (RequestData.CreatedAt rd))]))
          else [])"

definition dict_update :: "(string \<times> json) list \<Rightarrow> (string \<times> json) list \<Rightarrow> (string \<times> json) list" where
  \<comment> \<open>\<open>{..., **extra}\<close>: a key of \<open>extra\<close> that the dict has keeps its place and takes the
      new value, the other keys are appended\<close>
  "dict_update d extra =
     map (\<lambda>(k, v). (k, case map_of extra k of None \<Rightarrow> v | Some v' \<Rightarrow> v')) d
       @ filter (\<lambda>(k, v). k \<notin> set (map fst d)) extra"

definition details :: "db \<Rightarrow> Request \<Rightarrow> (string \<times> json) list" where
  \<comment> \<open>the dict \<open>details\<close> of \<open>get_request_details\<close>\<close>
  "details db req =
     (let user = lookup_if (UserId req) UserID (Users db);
          category = lookup_if (Request.CategoryId req) Category.Id (Categories db);
          status = lookup_if (StatusId req) Status.Id (Statuses db);
          complaint_screen =
            lookup_if (Request.ComplaintScreenId req) ComplaintScreen.Id (ComplaintScreens db);
          request_info =
            joined (Request.Id req) (Request_RequestInformation db) RequestInformation.Id
              (RequestInformations db);
          formats = joined (Request.Id req) (Request_Format db) Format.Id (Formats db);
          replies =
            filter (\<lambda>p. Reply.RequestId p = Request.Id req \<and> IsDeleted p = Some False)
              (Replies db)
      in dict_update
        [(''id'', JInt (Request.Id req)),
         (''number'', JStr (RequestNumber req)),
         (''status'', labels (map_option (\<lambda>s. (Status.Name_Ar s, Status.Name s)) status)),
         (''type'', labels (map_option (\<lambda>c. (Category.Name_Ar c, Category.Name c)) category)),
         (''user_email'', j_str (Option.bind user Email)),
         (''subject'', j_str (Request.Subject req)),
         (''body'', j_str (Request.Body req)),
         (''complaint_screen'',
            labels (map_option (\<lambda>c. (ComplaintScreen.Name_Ar c, ComplaintScreen.Name c))
                      complaint_screen)),
         (''assigned_role_id'', j_int (AssignedRoleId req)),
         (''attach_path'', j_str (AttachPath req)),
         (''created_at'', JTime (Request.CreatedAt req)),
         (''created_by'', j_int (Request.CreatedByUserID req)),
         (''updated_at'', j_time (UpdatedAt req)),
         (''updated_by'', j_int (UpdatedByUserID req)),
         (''request_information'',
            JList (map (\<lambda>ri. JDict [(''Name_Ar'', JStr (RequestInformation.Name_Ar ri)),
                                      (''name'', JStr (RequestInformation.Name ri))])
                     request_info)),
         (''formats'', JList (map (\<lambda>f. JDict [(''name'', JStr (Format.Name f))]) formats)),
         (''replies'', JList (map reply_view replies))]
        (request_data_details db req category))"

definition get_request_details :: "int \<Rightarrow> User \<Rightarrow> db \<Rightarrow> db \<times> envelope" where
  "get_request_details request_id admin db =
     (case find (\<lambda>r. Request.Id r = request_id) (Requests db) of
        None \<Rightarrow>
          (db, error_response ''Request not found'' (Some Request_not_found_ar)
                 (Some ''REQUEST_NOT_FOUND''))
      | Some req \<Rightarrow>
          (db, success_response ''Request details fetched successfully''
                 (Some Request_details_fetched_ar)
                 (Some (JDict [(''request'', JDict (details db req))]))))"

definition route_get_request_details :: "int \<Rightarrow> int \<Rightarrow> db \<Rightarrow> db \<times> envelope outcome" where
  \<comment> \<open>\<open>GET /admin/request-details/\<close>\<close>
  "route_get_request_details token_user_id request_id db =
     (case require_admin token_user_id db of
        Inl e \<Rightarrow> (db, Raised e)
      | Inr admin \<Rightarrow>
          (case get_request_details request_id admin db of
             (db', response) \<Rightarrow> (db', Returned response)))"

section \<open>routers/admin.py: the reply\<close>

text \<open>Each call of \<open>datetime.utcnow()\<close> is a reading of its own.\<close>

record reply_clock =
  utcnow_attachment :: datetime
  utcnow_reply :: datetime
  utcnow_updated :: datetime

definition admin_reply ::
  "settings \<Rightarrow> reply_clock \<Rightarrow> int \<Rightarrow> int \<Rightarrow> string option \<Rightarrow> string option
     \<Rightarrow> (string \<times> string) option \<Rightarrow> User \<Rightarrow> db \<Rightarrow> db \<times> task list \<times> envelope" where
  \<comment> \<open>\<open>attachment\<close> is the upload: its file name and its content\<close>
  "admin_reply cfg clock request_id status_id subject body attachment user db =
     (case find (\<lambda>r. Request.Id r = request_id) (Requests db) of
        None \<Rightarrow>
          (db, [], error_response ''Request not found'' (Some Request_not_found_ar)
                     (Some ''REQUEST_NOT_FOUND''))
      | Some req \<Rightarrow>
          (let (attachment_path, files') =
                 (case attachment of
                    None \<Rightarrow> (None, files db)
                  | Some (name, content) \<Rightarrow>
                      (let orig_name = basename name;
                           filename = strftime_YmdHMS (utcnow_attachment clock) @ ''_''
                                        @ replace_space orig_name
                       in (Some (''requests/reply/'' @ filename),
                           (files db)(path_join (ADMIN_UPLOAD_DIR cfg) filename \<mapsto> content))));
               new_reply =
                 \<lparr>Reply.Id = Replies_identity db,
                  Reply.RequestId = request_id,
                  Reply.Subject = subject,
                  Reply.Body = body,
                  AttachmentPath = attachment_path,
                  ResponderUserId = Some (UserID user),
                  Reply.CreatedAt = utcnow_reply clock,
                  Reply.CreatedByUserID = Some (UserID user),
                  IsDeleted = Reply_IsDeleted_default\<rparr>;
               db' = db
                 \<lparr>files := files',
                  Replies := Replies db @ [new_reply],
                  Replies_identity := Replies_identity db + 1,
                  Requests :=
                    map (\<lambda>r. if Request.Id r = Request.Id req
                              then r\<lparr>StatusId := Some status_id,
                                     UpdatedAt := Some (utcnow_updated clock),
                                     UpdatedByUserID := Some (UserID user)\<rparr>
                              else r)
                      (Requests db)\<rparr>;
               request_owner = find (\<lambda>u. Some (UserID u) = UserId req) (Users db')
           in (case request_owner of
                 None \<Rightarrow>
                   (db', [], error_response ''Request owner email not found''
                               (Some Owner_email_not_found_ar) (Some ''USER_EMAIL_NOT_FOUND''))
               | Some owner \<Rightarrow>
                   if \<not> py_truthy (Email owner) then
                     (db', [], error_response ''Request owner email not found''
                                 (Some Owner_email_not_found_ar) (Some ''USER_EMAIL_NOT_FOUND''))
                   else
                     (let user_email = Email owner;
                          email_subject = ''NGD - Response to your request '' @ RequestNumber req
                      in (db',
                          [case attachment_path of
                             Some p \<Rightarrow> send_email_with_attachment email_subject user_email p
                           | None \<Rightarrow> send_reply_email email_subject user_email],
                          success_response ''Reply sent successfully'' (Some Reply_sent_ar)
                            (Some (JDict [(''reply_id'', JInt (Reply.Id new_reply)),
                                          (''new_status'', JInt status_id),
                                          (''request_id'', JInt (Request.Id req))])))))))"

definition route_admin_reply ::
  "settings \<Rightarrow> reply_clock \<Rightarrow> int \<Rightarrow> int \<Rightarrow> int \<Rightarrow> string option \<Rightarrow> string option
     \<Rightarrow> (string \<times> string) option \<Rightarrow> db \<Rightarrow> db \<times> task list \<times> envelope outcome" where
  \<comment> \<open>\<open>POST /admin/reply\<close>: the dependency is \<open>get_current_user\<close>, any known user\<close>
  "route_admin_reply cfg clock token_user_id request_id status_id subject body attachment db =
     (case get_current_user token_user_id db of
        Inl e \<Rightarrow> (db, [], Raised e)
      | Inr user \<Rightarrow>
          (case admin_reply cfg clock request_id status_id subject body attachment user db of
             (db', tasks, response) \<Rightarrow> (db', tasks, Returned response)))"

section \<open>routers/requests.py: creating a request\<close>

record create_clock =
  utcnow_attach :: datetime
  now_number :: datetime
  utcnow_request :: datetime
  utcnow_data :: datetime

text \<open>The form fields of \<open>create_request\<close>; \<open>attach\<close> is the file name and the content.\<close>

record form =
  CategoryId :: int
  ComplaintScreenId :: "int option"
  Subject :: "string option"
  Body :: "string option"
  ProspectiveName :: "string option"
  Coordinate_TopLeft :: "string option"
  Coordinate_BottomRight :: "string option"
  ProjectionId :: "int option"
  OtherSpecification :: "string option"
  OtherFormat :: "string option"
  IntendedPurpose :: "string option"
  RequirementsDetails :: "string option"
  RequestInformationIds :: "string option"
  FormatIds :: "string option"
  attach :: "(string \<times> string) option"

fun order_by_Id_desc_first :: "Request list \<Rightarrow> Request option" where
  \<comment> \<open>\<open>db.query(Request).order_by(Request.Id.desc()).first()\<close>\<close>
  "order_by_Id_desc_first [] = None"
| "order_by_Id_desc_first (r # rs) =
     (case order_by_Id_desc_first rs of
        None \<Rightarrow> Some r
      | Some m \<Rightarrow> if Request.Id r < Request.Id m then Some m else Some r)"

definition next_number :: "db \<Rightarrow> int" where
  \<comment> \<open>\<open>1 if not last_request else last_request.Id + 1\<close>\<close>
  "next_number db =
     (case order_by_Id_desc_first (Requests db) of None \<Rightarrow> 1 | Some last_request \<Rightarrow> Request.Id last_request + 1)"

definition request_number :: "datetime \<Rightarrow> int \<Rightarrow> string" where
  \<comment> \<open>\<open>f"RQ-{datetime.now().strftime('%Y%m%d')}-{str(next_number).zfill(4)}"\<close>\<close>
  "request_number now n = ''RQ-'' @ strftime_Ymd now @ ''-'' @ zfill 4 (str_int n)"

definition validate_projection :: "int option \<Rightarrow> db \<Rightarrow> unit + int option" where
  \<comment> \<open>step 3: \<open>Inl ()\<close> is the early return, \<open>Inr p\<close> the normalised \<open>ProjectionId\<close>\<close>
  "validate_projection projection_id db =
     (case projection_id of
        None \<Rightarrow> Inr None
      | Some p \<Rightarrow>
          if p = 0 then Inr None
          else if p \<noteq> 0 \<and> find (\<lambda>q. Projection.Id q = p) (Projections db) = None then Inl ()
          else Inr (Some p))"

definition create_request ::
  "settings \<Rightarrow> create_clock \<Rightarrow> form \<Rightarrow> User \<Rightarrow> db \<Rightarrow> db \<times> task list \<times> envelope" where
  "create_request cfg clock f user db =
     (let (attach_rel, files') =
            (case attach f of
               None \<Rightarrow> (None, files db)
             | Some (filename, content) \<Rightarrow>
                 (let safe_name = strftime_YmdHMS (utcnow_attach clock) @ ''_''
                                    @ replace_space filename
                  in (Some (''requests/'' @ safe_name),
                      (files db)(path_join (REQUEST_DIR cfg) safe_name \<mapsto> content))));
          db0 = db\<lparr>files := files'\<rparr>;
          number = request_number (now_number clock) (next_number db0)
      in (case validate_projection (form.ProjectionId f) db0 of
            Inl _ \<Rightarrow>
              (db0, [], error_response ''Invalid ProjectionId'' (Some Invalid_ProjectionId_ar) None)
          | Inr projection_id \<Rightarrow>
              (let new_request =
                     \<lparr>Request.Id = Requests_identity db0,
                      UserId = Some (UserID user),
                      Request.CategoryId = Some (form.CategoryId f),
                      Request.ComplaintScreenId = form.ComplaintScreenId f,
                      Request.Subject = form.Subject f,
                      Request.Body = form.Body f,
                      AssignedRoleId = None,
                      RequestNumber = number,
                      StatusId = Some 7,
                      Request.CreatedAt = utcnow_request clock,
                      AttachPath = attach_rel,
                      Request.CreatedByUserID = None,
                      UpdatedAt = None,
                      UpdatedByUserID = None\<rparr>;
                   db1 = db0\<lparr>Requests := Requests db0 @ [new_request],
                             Requests_identity := Requests_identity db0 + 1\<rparr>;
                   db2 =
                     (if form.CategoryId f = 8 then
                        db1\<lparr>RequestDatas := RequestDatas db1 @
                          [\<lparr>RequestData.RequestId = Request.Id new_request,
                            RequestData.ProspectiveName = form.ProspectiveName f,
                            RequestData.Coordinate_TopLeft = form.Coordinate_TopLeft f,
                            RequestData.Coordinate_BottomRight = form.Coordinate_BottomRight f,
                            RequestData.ProjectionId = projection_id,
                            RequestData.OtherSpecification = form.OtherSpecification f,
                            RequestData.OtherFormat = form.OtherFormat f,
                            RequestData.IntendedPurpose = form.IntendedPurpose f,
                            RequestData.RequirementsDetails = form.RequirementsDetails f,
                            RequestData.CreatedAt = utcnow_data clock\<rparr>]\<rparr>
                      else db1);
                   db3 = db2
                     \<lparr>Request_RequestInformation := Request_RequestInformation db2 @
                        map (\<lambda>info_id. (Request.Id new_request, info_id))
                          (parse_list (RequestInformationIds f)),
                      Request_Format := Request_Format db2 @
                        map (\<lambda>fmt. (Request.Id new_request, fmt)) (parse_list (FormatIds f))\<rparr>;
                   category = find (\<lambda>c. Category.Id c = form.CategoryId f) (Categories db3);
                   category_name =
                     (case category of None \<Rightarrow> ''Unknown Category'' | Some c \<Rightarrow> Category.Name c);
                   admin_subject = ''New Request '' @ number @ '' - '' @ category_name
               in (db3,
                   [case attach_rel of
                      Some p \<Rightarrow> send_email_with_attachment admin_subject (Some (SYSTEM_EMAIL cfg)) p
                    | None \<Rightarrow> send_email admin_subject (Some (SYSTEM_EMAIL cfg)),
                    send_email (''NGD - Request '' @ number @ '' received'') (Email user)],
                   success_response ''Request created successfully'' (Some Request_created_ar)
                     (Some (JDict [(''request_id'', JInt (Request.Id new_request)),
                                   (''request_number'', JStr number),
                                   (''AttachPath'', j_str attach_rel)]))))))"

section \<open>The operations as calls, and runs of calls\<close>

text \<open>
  One call of the request workflow. The admin routes carry the user id of the caller's
  token, from which their dependency resolves the user; \<open>create_request\<close> takes the user
  that its dependency (app/utils/utils.py, not at hand) resolved.
\<close>

datatype call =
    Create_request create_clock form User
  | Assign_request int int int
  | List_requests int int int
  | Get_request_details int int
  | Admin_reply reply_clock int int int "string option" "string option" "(string \<times> string) option"

fun step :: "settings \<Rightarrow> call \<Rightarrow> db \<Rightarrow> db \<times> task list \<times> envelope outcome" where
  "step cfg (Create_request clock f user) db =
     (case create_request cfg clock f user db of
        (db', tasks, response) \<Rightarrow> (db', tasks, Returned response))"
| "step cfg (Assign_request token_user_id request_id role_id) db =
     (case route_assign_request token_user_id request_id role_id db of
        (db', out) \<Rightarrow> (db', [], out))"
| "step cfg (List_requests token_user_id page limit) db =
     (case route_list_requests token_user_id page limit db of
        (db', out) \<Rightarrow> (db', [], out))"
| "step cfg (Get_request_details token_user_id request_id) db =
     (case route_get_request_details token_user_id request_id db of
        (db', out) \<Rightarrow> (db', [], out))"
| "step cfg (Admin_reply clock token_user_id request_id status_id subject body attachment) db =
     route_admin_reply cfg clock token_user_id request_id status_id subject body attachment db"

fun run :: "settings \<Rightarrow> call list \<Rightarrow> db \<Rightarrow> db" where
  \<comment> \<open>the calls one after the other, each on the database the one before left\<close>
  "run cfg [] db = db"
| "run cfg (c # cs) db = run cfg cs (fst (step cfg c db))"

definition db_wf :: "db \<Rightarrow> bool" where
  \<comment> \<open>the identity column: ids start at 1, and the counter is beyond every id given out\<close>
  "db_wf db =
     (1 \<le> Requests_identity db
      \<and> list_all (\<lambda>r. 1 \<le> Request.Id r \<and> Request.Id r < Requests_identity db) (Requests db))"

definition created_number :: "envelope \<Rightarrow> string option" where
  \<comment> \<open>\<open>response["data"]["request_number"]\<close> of a response that has one\<close>
  "created_number response =
     (case map_of response ''data'' of
        Some (JDict d) \<Rightarrow> (case map_of d ''request_number'' of Some (JStr n) \<Rightarrow> Some n | _ \<Rightarrow> None)
      | _ \<Rightarrow> None)"



section \<open>A small database for the instances\<close>

definition t0 :: datetime where
  "t0 = \<lparr>year = 2025, month = 1, day = 1, hour = 9, minute = 30, second = 0, microsecond = 0\<rparr>"

definition t1 :: datetime where
  "t1 = \<lparr>year = 2025, month = 1, day = 1, hour = 12, minute = 0, second = 5, microsecond = 0\<rparr>"

definition admin1 :: User where
  "admin1 = \<lparr>UserID = 1, RoleID = Some 1, Email = Some ''admin@ngd.example'', FirstName = Some ''Amal''\<rparr>"

definition citizen2 :: User where
  "citizen2 = \<lparr>UserID = 2, RoleID = Some 2, Email = Some ''sara@mail.example'', FirstName = Some ''Sara''\<rparr>"

definition citizen3 :: User where
  \<comment> \<open>a user with no email on file\<close>
  "citizen3 = \<lparr>UserID = 3, RoleID = Some 2, Email = None, FirstName = Some ''Omar''\<rparr>"

definition cfg0 :: settings where
  "cfg0 = \<lparr>REQUEST_DIR = ''static/requests'', ADMIN_UPLOAD_DIR = ''static/requests/reply'',
           SYSTEM_EMAIL = ''system@ngd.example''\<rparr>"

definition db0 :: db where
  \<comment> \<open>no request yet; three users and some reference rows\<close>
  "db0 =
     \<lparr>Requests = [], Requests_identity = 1, RequestDatas = [],
      Request_RequestInformation = [], Request_Format = [],
      Replies = [], Replies_identity = 1,
      Users = [admin1, citizen2, citizen3],
      Statuses = [\<lparr>Status.Id = 7, Status.Name = ''Submitted'', Status.Name_Ar = ''Submitted (ar)''\<rparr>,
                  \<lparr>Status.Id = 9, Status.Name = ''Closed'', Status.Name_Ar = ''Closed (ar)''\<rparr>],
      Categories = [\<lparr>Category.Id = 1, Category.Name = ''Complaint'', Category.Name_Ar = ''Complaint (ar)''\<rparr>,
                    \<lparr>Category.Id = 8, Category.Name = ''Data request'', Category.Name_Ar = ''Data request (ar)''\<rparr>],
      ComplaintScreens = [],
      RequestInformations = [\<lparr>RequestInformation.Id = 1, RequestInformation.Name = ''Maps'', RequestInformation.Name_Ar = ''Maps (ar)''\<rparr>],
      Formats = [\<lparr>Format.Id = 4, Format.Name = ''Shapefile''\<rparr>],
      Projections = [\<lparr>Projection.Id = 1, Projection.Name = ''UTM 38N''\<rparr>],
      files = Map.empty\<rparr>"

definition request1 :: Request where
  \<comment> \<open>a closed request of a user with an email\<close>
  "request1 =
     \<lparr>Request.Id = 1, UserId = Some 2, Request.CategoryId = Some 1,
      Request.ComplaintScreenId = None, Request.Subject = Some ''Broken link'',
      Request.Body = Some ''The download link fails'', AssignedRoleId = None,
      RequestNumber = ''RQ-20250101-0001'', StatusId = Some 9, Request.CreatedAt = t0,
      AttachPath = None, Request.CreatedByUserID = None, UpdatedAt = None,
      UpdatedByUserID = None\<rparr>"

definition request2 :: Request where
  \<comment> \<open>a request of the user with no email\<close>
  "request2 =
     \<lparr>Request.Id = 2, UserId = Some 3, Request.CategoryId = Some 1,
      Request.ComplaintScreenId = None, Request.Subject = Some ''Missing layer'',
      Request.Body = None, AssignedRoleId = Some 4,
      RequestNumber = ''RQ-20250101-0002'', StatusId = Some 7, Request.CreatedAt = t1,
      AttachPath = None, Request.CreatedByUserID = None, UpdatedAt = None,
      UpdatedByUserID = None\<rparr>"

definition db2 :: db where
  "db2 = db0\<lparr>Requests := [request1, request2], Requests_identity := 3\<rparr>"

definition form0 :: form where
  \<comment> \<open>a complaint with no projection, no tags and no attachment\<close>
  "form0 =
     \<lparr>form.CategoryId = 1, form.ComplaintScreenId = None, form.Subject = Some ''Hello'',
      form.Body = Some ''A question'', form.ProspectiveName = None,
      form.Coordinate_TopLeft = None, form.Coordinate_BottomRight = None,
      form.ProjectionId = None, form.OtherSpecification = None, form.OtherFormat = None,
      form.IntendedPurpose = None, form.RequirementsDetails = None,
      RequestInformationIds = None, FormatIds = None, attach = None\<rparr>"

definition clock0 :: create_clock where
  "clock0 = \<lparr>utcnow_attach = t0, now_number = t1, utcnow_request = t0, utcnow_data = t0\<rparr>"


section \<open>Properties of the response envelope\<close>

text \<open>
  Claim C9. When no Arabic message is supplied, \<open>message_ar\<close> of a success response and
  of an error response equals the English \<open>message\<close>. A success response has exactly
  the keys success, message, message_ar, data, with success true and the data it was
  given; an error response has exactly the keys success, message, message_ar,
  error_code, with success false and the error code it was given, and no data key.
\<close>

theorem envelope_message_ar_fallback:
  "map_of (success_response m None data) ''message_ar''
       = map_of (success_response m None data) ''message''
   \<and> map_of (success_response m None data) ''message_ar'' = Some (JStr m)
   \<and> map_of (error_response m None code) ''message_ar''
       = map_of (error_response m None code) ''message''
   \<and> map_of (error_response m None code) ''message_ar'' = Some (JStr m)
   \<and> map fst (success_response m ar data) = [''success'', ''message'', ''message_ar'', ''data'']
   \<and> map_of (success_response m ar data) ''success'' = Some (JBool True)
   \<and> map_of (success_response m ar data) ''data'' = Some (j_data data)
   \<and> map_of (success_response m ar data) ''error_code'' = None
   \<and> map fst (error_response m ar code) = [''success'', ''message'', ''message_ar'', ''error_code'']
   \<and> map_of (error_response m ar code) ''success'' = Some (JBool False)
   \<and> map_of (error_response m ar code) ''error_code'' = Some (j_str code)
   \<and> map_of (error_response m ar code) ''data'' = None"
  by (simp add: success_response_def error_response_def py_or_def)


section \<open>Role assignment\<close>

lemma find_map_same_Id:
  assumes "\<And>r. Request.Id (g r) = Request.Id r"
  shows "find (\<lambda>r. Request.Id r = k) (map (\<lambda>r. if Request.Id r = k then g r else r) rs)
         = map_option g (find (\<lambda>r. Request.Id r = k) rs)"
  using assms by (induction rs) auto

lemma find_Some_Id: "find (\<lambda>r. Request.Id r = k) rs = Some req \<Longrightarrow> Request.Id req = k"
  by (auto simp: find_Some_iff)

lemma require_admin_Requests_update:
  "require_admin u (db\<lparr>Requests := rs\<rparr>) = require_admin u db"
  by (simp add: require_admin_def get_current_user_def)

text \<open>
  Claim C6. Role assignment is idempotent. For an existing request, assigning the same
  role a second time returns the same response and leaves the database exactly as the
  first assignment left it, in which the request carries the role; the same holds of the
  route with its admin gate.
\<close>

theorem assign_request_idempotent:
  assumes "find (\<lambda>r. Request.Id r = request_id) (Requests db) = Some req"
  shows "assign_request request_id role_id admin (fst (assign_request request_id role_id admin db))
           = assign_request request_id role_id admin db
       \<and> find (\<lambda>r. Request.Id r = request_id)
             (Requests (fst (assign_request request_id role_id admin db)))
           = Some (req\<lparr>AssignedRoleId := Some role_id\<rparr>)
       \<and> route_assign_request u request_id role_id
             (fst (route_assign_request u request_id role_id db))
           = route_assign_request u request_id role_id db"
proof -
  have k: "Request.Id req = request_id" using assms by (rule find_Some_Id)
  have f: "find (\<lambda>r. Request.Id r = request_id)
             (map (\<lambda>r. if Request.Id r = request_id then r\<lparr>AssignedRoleId := Some role_id\<rparr> else r)
                (Requests db)) = Some (req\<lparr>AssignedRoleId := Some role_id\<rparr>)"
    using assms by (simp add: find_map_same_Id)
  have a: "assign_request request_id role_id adm (fst (assign_request request_id role_id adm db))
           = assign_request request_id role_id adm db" for adm
    using assms k f by (simp add: assign_request_def o_def cong: if_cong)
  have b: "find (\<lambda>r. Request.Id r = request_id)
             (Requests (fst (assign_request request_id role_id admin db)))
           = Some (req\<lparr>AssignedRoleId := Some role_id\<rparr>)"
    using assms k f by (simp add: assign_request_def)
  have c: "route_assign_request u request_id role_id
             (fst (route_assign_request u request_id role_id db))
           = route_assign_request u request_id role_id db"
  proof (cases "require_admin u db")
    case (Inl e)
    then show ?thesis by (simp add: route_assign_request_def)
  next
    case (Inr adm)
    obtain db' resp where r: "assign_request request_id role_id adm db = (db', resp)"
      by (cases "assign_request request_id role_id adm db")
    have u: "require_admin u db' = require_admin u db"
      using r assms by (auto simp: assign_request_def require_admin_Requests_update)
    show ?thesis using Inr r u a[of adm] by (simp add: route_assign_request_def)
  qed
  show ?thesis using a b c by blast
qed

theorem assign_request_idempotent_witness:
  "find (\<lambda>r. Request.Id r = 2) (Requests db2) = Some request2
   \<and> assign_request 2 5 admin1 (fst (assign_request 2 5 admin1 db2)) = assign_request 2 5 admin1 db2
   \<and> find (\<lambda>r. Request.Id r = 2) (Requests (fst (assign_request 2 5 admin1 db2)))
       = Some (request2\<lparr>AssignedRoleId := Some 5\<rparr>)
   \<and> AssignedRoleId request2 = Some 4
   \<and> route_assign_request 1 2 5 (fst (route_assign_request 1 2 5 db2)) = route_assign_request 1 2 5 db2"
proof -
  have h: "find (\<lambda>r. Request.Id r = 2) (Requests db2) = Some request2"
    by (simp add: db2_def request1_def request2_def)
  show ?thesis
    using h assign_request_idempotent [OF h, of 5 admin1 1] by (simp add: request2_def)
qed

text \<open>
  Claim C10. For an existing request, role assignment leaves every table but
  \<open>Requests\<close> as it was, and the attachment store too; \<open>Requests\<close> keeps its rows in
  place; each row is what it was but for \<open>AssignedRoleId\<close> (so \<open>StatusId\<close>,
  \<open>RequestNumber\<close>, \<open>Subject\<close>, \<open>Body\<close>, \<open>AttachPath\<close>, \<open>UpdatedAt\<close>,
  \<open>UpdatedByUserID\<close>, \<open>CreatedAt\<close> and the rest are unchanged); a row with another id is
  unchanged altogether, and the row of the request carries the new role.
\<close>

theorem assign_request_frame:
  assumes "find (\<lambda>r. Request.Id r = request_id) (Requests db) = Some req"
      and "assign_request request_id role_id admin db = (db', response)"
  shows "db'\<lparr>Requests := Requests db\<rparr> = db
       \<and> length (Requests db') = length (Requests db)
       \<and> (\<forall>i < length (Requests db).
            (Requests db' ! i)\<lparr>AssignedRoleId := AssignedRoleId (Requests db ! i)\<rparr> = Requests db ! i
          \<and> StatusId (Requests db' ! i) = StatusId (Requests db ! i)
          \<and> RequestNumber (Requests db' ! i) = RequestNumber (Requests db ! i)
          \<and> Request.Subject (Requests db' ! i) = Request.Subject (Requests db ! i)
          \<and> Request.Body (Requests db' ! i) = Request.Body (Requests db ! i)
          \<and> AttachPath (Requests db' ! i) = AttachPath (Requests db ! i)
          \<and> UpdatedAt (Requests db' ! i) = UpdatedAt (Requests db ! i)
          \<and> UpdatedByUserID (Requests db' ! i) = UpdatedByUserID (Requests db ! i)
          \<and> Request.CreatedAt (Requests db' ! i) = Request.CreatedAt (Requests db ! i)
          \<and> (Request.Id (Requests db ! i) \<noteq> request_id \<longrightarrow> Requests db' ! i = Requests db ! i)
          \<and> (Request.Id (Requests db ! i) = request_id
               \<longrightarrow> AssignedRoleId (Requests db' ! i) = Some role_id))"
proof -
  have k: "Request.Id req = request_id" using assms(1) by (rule find_Some_Id)
  have d: "db' = db\<lparr>Requests :=
             map (\<lambda>r. if Request.Id r = request_id then r\<lparr>AssignedRoleId := Some role_id\<rparr> else r)
               (Requests db)\<rparr>"
    using assms k by (simp add: assign_request_def)
  show ?thesis unfolding d by simp
qed

theorem assign_request_frame_witness:
  "find (\<lambda>r. Request.Id r = 2) (Requests db2) = Some request2
   \<and> assign_request 2 5 admin1 db2 =
       (db2\<lparr>Requests := [request1, request2\<lparr>AssignedRoleId := Some 5\<rparr>]\<rparr>,
        success_response ''Request assigned successfully'' (Some Request_assigned_ar)
          (Some (JDict [(''request_id'', JInt 2)])))
   \<and> (db2\<lparr>Requests := [request1, request2\<lparr>AssignedRoleId := Some 5\<rparr>]\<rparr>)\<lparr>Requests := Requests db2\<rparr> = db2
   \<and> Requests (db2\<lparr>Requests := [request1, request2\<lparr>AssignedRoleId := Some 5\<rparr>]\<rparr>) ! 0 = Requests db2 ! 0
   \<and> StatusId (Requests (db2\<lparr>Requests := [request1, request2\<lparr>AssignedRoleId := Some 5\<rparr>]\<rparr>) ! 1)
       = StatusId (Requests db2 ! 1)"
proof -
  have h: "find (\<lambda>r. Request.Id r = 2) (Requests db2) = Some request2"
    by (simp add: db2_def request1_def request2_def)
  have a: "assign_request 2 5 admin1 db2 =
       (db2\<lparr>Requests := [request1, request2\<lparr>AssignedRoleId := Some 5\<rparr>]\<rparr>,
        success_response ''Request assigned successfully'' (Some Request_assigned_ar)
          (Some (JDict [(''request_id'', JInt 2)])))"
    by (simp add: assign_request_def db2_def request1_def request2_def)
  show ?thesis
    using h a assign_request_frame [OF h a] by (simp add: db2_def request1_def)
qed

section \<open>Reply and detail retrieval\<close>














section \<open>Request creation: the projection reference\<close>

lemma validate_projection_Inl:
  "validate_projection v db = Inl u
     \<longleftrightarrow> (\<exists>p. v = Some p \<and> p \<noteq> 0 \<and> find (\<lambda>q. Projection.Id q = p) (Projections db) = None)"
  by (cases v) (auto simp: validate_projection_def)

lemma validate_projection_files:
  "validate_projection v (db\<lparr>files := fs\<rparr>) = validate_projection v db"
  by (cases v) (simp_all add: validate_projection_def)

lemma create_request_rejected:
  assumes "validate_projection (form.ProjectionId f) db = Inl u"
  shows "\<exists>fs. create_request cfg clock f user db =
           (db\<lparr>files := fs\<rparr>, [],
            error_response ''Invalid ProjectionId'' (Some Invalid_ProjectionId_ar) None)"
proof (cases "attach f")
  case None
  then show ?thesis using assms
    by (intro exI[of _ "files db"]) (simp add: create_request_def validate_projection_files)
next
  case (Some a)
  obtain filename content where a: "a = (filename, content)" by (cases a)
  show ?thesis using assms Some a
    by (simp add: create_request_def Let_def validate_projection_files) (rule exI, rule refl)
qed

lemma create_request_ignores_projection:
  assumes "form.CategoryId f \<noteq> 8"
      and "validate_projection (form.ProjectionId f) db = Inr p1"
      and "validate_projection p' db = Inr p2"
  shows "create_request cfg clock (f\<lparr>form.ProjectionId := p'\<rparr>) user db
           = create_request cfg clock f user db
       \<and> RequestDatas (fst (create_request cfg clock f user db)) = RequestDatas db"
proof (cases "attach f")
  case None
  then show ?thesis using assms
    by (simp add: create_request_def Let_def validate_projection_files)
next
  case (Some a)
  obtain filename content where a: "a = (filename, content)" by (cases a)
  show ?thesis using assms Some a
    by (simp add: create_request_def Let_def validate_projection_files)
qed

lemma validate_projection_Inr:
  assumes "v = None \<or> v = Some 0 \<or> (\<exists>q \<in> set (Projections db). v = Some (Projection.Id q))"
  shows "\<exists>p. validate_projection v db = Inr p"
  using assms by (cases v) (auto simp: validate_projection_def find_None_iff)

text \<open>
  Claim C2, as the code has it. A \<open>ProjectionId\<close> that is neither absent nor 0 and names
  no row of the Projection table makes the creation return the error envelope
  "Invalid ProjectionId" (error code null), whatever the category, data request or not;
  no mail is scheduled and every table is left as it was (only an uploaded attachment
  has been stored). For a category other than data request, a \<open>ProjectionId\<close> that
  passes the check (absent, 0, or the id of a projection) has no effect: any other
  passing value gives the same result, and no RequestData row is created.
\<close>

theorem invalid_projection_rejected:
  "(\<forall>p. form.ProjectionId f = Some p \<and> p \<noteq> 0
          \<and> find (\<lambda>q. Projection.Id q = p) (Projections db) = None
        \<longrightarrow> (\<exists>db'. create_request cfg clock f user db =
                     (db', [], error_response ''Invalid ProjectionId''
                                 (Some Invalid_ProjectionId_ar) None)
                 \<and> db'\<lparr>files := files db\<rparr> = db
                 \<and> Requests db' = Requests db
                 \<and> RequestDatas db' = RequestDatas db
                 \<and> Request_RequestInformation db' = Request_RequestInformation db
                 \<and> Request_Format db' = Request_Format db))
   \<and> (form.CategoryId f \<noteq> 8
        \<and> (form.ProjectionId f = None \<or> form.ProjectionId f = Some 0
             \<or> (\<exists>q \<in> set (Projections db). form.ProjectionId f = Some (Projection.Id q)))
        \<and> (p' = None \<or> p' = Some 0 \<or> (\<exists>q \<in> set (Projections db). p' = Some (Projection.Id q)))
        \<longrightarrow> create_request cfg clock (f\<lparr>form.ProjectionId := p'\<rparr>) user db
              = create_request cfg clock f user db
            \<and> RequestDatas (fst (create_request cfg clock f user db)) = RequestDatas db)"
proof -
  have part1: "\<exists>db'. create_request cfg clock f user db =
                     (db', [], error_response ''Invalid ProjectionId''
                                 (Some Invalid_ProjectionId_ar) None)
                 \<and> db'\<lparr>files := files db\<rparr> = db
                 \<and> Requests db' = Requests db
                 \<and> RequestDatas db' = RequestDatas db
                 \<and> Request_RequestInformation db' = Request_RequestInformation db
                 \<and> Request_Format db' = Request_Format db"
    if a: "form.ProjectionId f = Some p \<and> p \<noteq> 0
          \<and> find (\<lambda>q. Projection.Id q = p) (Projections db) = None" for p
  proof -
    have "validate_projection (form.ProjectionId f) db = Inl ()"
      using a by (simp add: validate_projection_Inl)
    then obtain fs where "create_request cfg clock f user db =
           (db\<lparr>files := fs\<rparr>, [],
            error_response ''Invalid ProjectionId'' (Some Invalid_ProjectionId_ar) None)"
      using create_request_rejected by blast
    then show ?thesis by (intro exI[of _ "db\<lparr>files := fs\<rparr>"]) simp
  qed
  have part2: "create_request cfg clock (f\<lparr>form.ProjectionId := p'\<rparr>) user db
              = create_request cfg clock f user db
            \<and> RequestDatas (fst (create_request cfg clock f user db)) = RequestDatas db"
    if a: "form.CategoryId f \<noteq> 8
        \<and> (form.ProjectionId f = None \<or> form.ProjectionId f = Some 0
             \<or> (\<exists>q \<in> set (Projections db). form.ProjectionId f = Some (Projection.Id q)))
        \<and> (p' = None \<or> p' = Some 0 \<or> (\<exists>q \<in> set (Projections db). p' = Some (Projection.Id q)))"
  proof -
    obtain p1 where p1: "validate_projection (form.ProjectionId f) db = Inr p1"
      using a validate_projection_Inr by blast
    obtain p2 where p2: "validate_projection p' db = Inr p2"
      using a validate_projection_Inr by blast
    show ?thesis using a p1 p2 create_request_ignores_projection by blast
  qed
  show ?thesis using part1 part2 by blast
qed

theorem invalid_projection_rejected_witness:
  "snd (create_request cfg0 clock0 (form0\<lparr>form.CategoryId := 8, form.ProjectionId := Some 99\<rparr>) citizen2 db0)
     = ([], error_response ''Invalid ProjectionId'' (Some Invalid_ProjectionId_ar) None)
   \<and> Requests (fst (create_request cfg0 clock0
         (form0\<lparr>form.CategoryId := 8, form.ProjectionId := Some 99\<rparr>) citizen2 db0)) = []
   \<and> create_request cfg0 clock0 (form0\<lparr>form.ProjectionId := Some 1\<rparr>) citizen2 db0
     = create_request cfg0 clock0 form0 citizen2 db0
   \<and> RequestDatas (fst (create_request cfg0 clock0 (form0\<lparr>form.ProjectionId := Some 1\<rparr>) citizen2 db0)) = []"
proof -
  let ?f1 = "form0\<lparr>form.CategoryId := 8, form.ProjectionId := Some 99\<rparr>"
  let ?f2 = "form0\<lparr>form.ProjectionId := Some 1\<rparr>"
  have a: "form.ProjectionId ?f1 = Some 99
        \<and> (99::int) \<noteq> 0 \<and> find (\<lambda>q. Projection.Id q = 99) (Projections db0) = None"
    by (simp add: db0_def)
  have r0: "Requests db0 = []" "RequestDatas db0 = []" by (simp_all add: db0_def)
  have b: "form.CategoryId ?f2 \<noteq> 8
        \<and> (form.ProjectionId ?f2 = None \<or> form.ProjectionId ?f2 = Some 0
             \<or> (\<exists>q \<in> set (Projections db0). form.ProjectionId ?f2 = Some (Projection.Id q)))
        \<and> (None = None \<or> None = Some (0::int)
             \<or> (\<exists>q \<in> set (Projections db0). None = Some (Projection.Id q)))"
    by (simp add: db0_def form0_def)
  have e: "?f2\<lparr>form.ProjectionId := None\<rparr> = form0" by (simp add: form0_def)
  obtain db' where c: "create_request cfg0 clock0 ?f1 citizen2 db0 =
         (db', [], error_response ''Invalid ProjectionId'' (Some Invalid_ProjectionId_ar) None)"
      and d: "Requests db' = Requests db0"
    using a invalid_projection_rejected [where f = ?f1 and db = db0 and cfg = cfg0 and clock = clock0 and user = citizen2 and p' = None] by blast
  have p2: "create_request cfg0 clock0 (?f2\<lparr>form.ProjectionId := None\<rparr>) citizen2 db0
              = create_request cfg0 clock0 ?f2 citizen2 db0
          \<and> RequestDatas (fst (create_request cfg0 clock0 ?f2 citizen2 db0)) = RequestDatas db0"
    using b invalid_projection_rejected [where f = ?f2 and db = db0 and cfg = cfg0 and clock = clock0 and user = citizen2 and p' = None] by blast
  show ?thesis using c d p2 r0 unfolding e by simp
qed

text \<open>
  The claim as it was stated fails for a category other than data request: a complaint
  (category 1) with the unknown projection 99 is refused, not created.
\<close>

theorem projection_not_ignored_counterexample:
  "form.CategoryId (form0\<lparr>form.ProjectionId := Some 99\<rparr>) = 1
   \<and> find (\<lambda>q. Projection.Id q = 99) (Projections db0) = None
   \<and> create_request cfg0 clock0 (form0\<lparr>form.ProjectionId := Some 99\<rparr>) citizen2 db0
       = (db0, [], error_response ''Invalid ProjectionId'' (Some Invalid_ProjectionId_ar) None)"
  by (simp add: create_request_def validate_projection_def form0_def db0_def)

section \<open>Request creation: what an accepted request stores\<close>

lemma next_number_files: "next_number (db\<lparr>files := fs\<rparr>) = next_number db"
  by (simp add: next_number_def)

lemma create_request_accepted:
  assumes "validate_projection (form.ProjectionId f) db = Inr p"
      and "create_request cfg clock f user db = (db', tasks, response)"
  shows "(\<exists>r. Requests db' = Requests db @ [r]
            \<and> Request.Id r = Requests_identity db
            \<and> RequestNumber r = request_number (now_number clock) (next_number db)
            \<and> StatusId r = Some 7 \<and> AssignedRoleId r = None)
       \<and> Requests_identity db' = Requests_identity db + 1
       \<and> Request_RequestInformation db' = Request_RequestInformation db @
            map (\<lambda>info_id. (Requests_identity db, info_id)) (parse_list (RequestInformationIds f))
       \<and> Request_Format db' = Request_Format db @
            map (\<lambda>fmt. (Requests_identity db, fmt)) (parse_list (FormatIds f))
       \<and> Users db' = Users db
       \<and> (\<exists>ap. response = success_response ''Request created successfully''
                   (Some Request_created_ar)
                   (Some (JDict [(''request_id'', JInt (Requests_identity db)),
                                 (''request_number'',
                                    JStr (request_number (now_number clock) (next_number db))),
                                 (''AttachPath'', ap)])))"
proof (cases "form.CategoryId f = 8")
  case True
  show ?thesis
  proof (cases "attach f")
    case None
    then show ?thesis using assms True
      by (auto simp: create_request_def Let_def validate_projection_files next_number_files)
  next
    case (Some a)
    obtain filename content where a: "a = (filename, content)" by (cases a)
    show ?thesis using assms True Some a
      by (auto simp: create_request_def Let_def validate_projection_files next_number_files)
  qed
next
  case False
  show ?thesis
  proof (cases "attach f")
    case None
    then show ?thesis using assms False
      by (auto simp: create_request_def Let_def validate_projection_files next_number_files)
  next
    case (Some a)
    obtain filename content where a: "a = (filename, content)" by (cases a)
    show ?thesis using assms False Some a
      by (auto simp: create_request_def Let_def validate_projection_files next_number_files)
  qed
qed

lemma create_request_success_accepted:
  assumes "create_request cfg clock f user db = (db', tasks, response)"
      and "map_of response ''success'' = Some (JBool True)"
  shows "\<exists>p. validate_projection (form.ProjectionId f) db = Inr p"
proof (cases "validate_projection (form.ProjectionId f) db")
  case (Inl u)
  then obtain fs where "create_request cfg clock f user db =
           (db\<lparr>files := fs\<rparr>, [],
            error_response ''Invalid ProjectionId'' (Some Invalid_ProjectionId_ar) None)"
    using create_request_rejected by blast
  then have "map_of response ''success'' = Some (JBool False)"
    using assms(1) by (simp add: error_response_def)
  then show ?thesis using assms(2) by simp
next
  case (Inr p)
  then show ?thesis by blast
qed

section \<open>Request creation: the id lists\<close>









section \<open>Request creation: the request number\<close>


lemma digit_val_digit_char: "d < 10 \<Longrightarrow> digit_val (digit_char d) = int d"
proof -
  assume "d < 10"
  then have "d = 0 \<or> d = 1 \<or> d = 2 \<or> d = 3 \<or> d = 4 \<or> d = 5 \<or> d = 6 \<or> d = 7 \<or> d = 8 \<or> d = 9"
    by arith
  then show ?thesis by (auto simp: digit_val_def digit_char_def)
qed

lemma digit_char_not_sign: "d < 10 \<Longrightarrow> digit_char d \<noteq> CHR ''+'' \<and> digit_char d \<noteq> CHR ''-''"
proof -
  assume "d < 10"
  then have "d = 0 \<or> d = 1 \<or> d = 2 \<or> d = 3 \<or> d = 4 \<or> d = 5 \<or> d = 6 \<or> d = 7 \<or> d = 8 \<or> d = 9"
    by arith
  then show ?thesis by (auto simp: digit_char_def)
qed

lemma int_of_str_snoc: "int_of_str (s @ [c]) = 10 * int_of_str s + digit_val c"
  by (simp add: int_of_str_def)

lemma int_of_str_str_nat: "int_of_str (str_nat n) = int n"
proof (induction n rule: str_nat.induct)
  case (1 n)
  show ?case
  proof (cases "n < 10")
    case True
    then show ?thesis by (simp add: str_nat.simps [of n] int_of_str_def digit_val_digit_char)
  next
    case False
    then have "int_of_str (str_nat n) = 10 * int (n div 10) + int (n mod 10)"
      using 1 by (simp add: str_nat.simps [of n] int_of_str_snoc digit_val_digit_char)
    then show ?thesis by presburger
  qed
qed

lemma str_nat_not_empty: "str_nat n \<noteq> []"
  by (simp add: str_nat.simps [of n])

lemma hd_str_nat_not_sign: "hd (str_nat n) \<noteq> CHR ''+'' \<and> hd (str_nat n) \<noteq> CHR ''-''"
proof (induction n rule: str_nat.induct)
  case (1 n)
  show ?case
  proof (cases "n < 10")
    case True
    then show ?thesis using digit_char_not_sign [of n] by (simp add: str_nat.simps [of n])
  next
    case False
    then show ?thesis using 1 str_nat_not_empty [of "n div 10"]
      by (simp add: str_nat.simps [of n])
  qed
qed

lemma zfill_str_nat:
  "zfill w (str_nat n) = replicate (w - length (str_nat n)) (CHR ''0'') @ str_nat n"
proof (cases "str_nat n")
  case Nil
  then show ?thesis using str_nat_not_empty by simp
next
  case (Cons c rest)
  then have "c \<noteq> CHR ''+'' \<and> c \<noteq> CHR ''-''" using hd_str_nat_not_sign [of n] by simp
  then show ?thesis using Cons by (simp add: zfill_def)
qed

lemma int_of_str_zeros: "int_of_str (replicate k (CHR ''0'') @ s) = int_of_str s"
proof -
  have "foldl (\<lambda>acc c. 10 * acc + digit_val c) 0 (replicate k (CHR ''0'')) = 0"
    by (induction k) (simp_all add: digit_val_def)
  then show ?thesis by (simp add: int_of_str_def)
qed

lemma int_of_str_zfill: "int_of_str (zfill w (str_nat n)) = int n"
  by (simp add: zfill_str_nat int_of_str_zeros int_of_str_str_nat)

lemma zfill_str_int_inj:
  assumes "0 \<le> a" "0 \<le> b" "zfill w (str_int a) = zfill w (str_int b)"
  shows "a = b"
proof -
  have "int_of_str (zfill w (str_nat (nat a))) = int_of_str (zfill w (str_nat (nat b)))"
    using assms by (simp add: str_int_def)
  then show ?thesis using assms(1,2) by (simp add: int_of_str_zfill)
qed

lemma order_by_Id_desc_first_None: "order_by_Id_desc_first rs = None \<longleftrightarrow> rs = []"
  by (induction rs) (auto split: option.splits)

lemma order_by_Id_desc_first_Max:
  "order_by_Id_desc_first rs = Some m \<Longrightarrow> Request.Id m = Max (Request.Id ` set rs)"
proof (induction rs arbitrary: m)
  case Nil
  then show ?case by simp
next
  case (Cons r rs)
  show ?case
  proof (cases "order_by_Id_desc_first rs")
    case None
    then have "rs = []" by (simp add: order_by_Id_desc_first_None)
    then show ?thesis using Cons.prems by simp
  next
    case (Some m')
    then have ne: "rs \<noteq> []" using order_by_Id_desc_first_None [of rs] by auto
    have "Request.Id m' = Max (Request.Id ` set rs)" using Cons.IH Some by simp
    then show ?thesis using Cons.prems Some ne by (auto simp: max_def split: if_splits)
  qed
qed

lemma next_number_Max:
  "next_number db = (if Requests db = [] then 1 else Max (Request.Id ` set (Requests db)) + 1)"
proof (cases "order_by_Id_desc_first (Requests db)")
  case None
  then show ?thesis by (simp add: next_number_def order_by_Id_desc_first_None)
next
  case (Some m)
  then have "Requests db \<noteq> []" using order_by_Id_desc_first_None [of "Requests db"] by auto
  then show ?thesis using Some order_by_Id_desc_first_Max [OF Some] by (simp add: next_number_def)
qed


lemma db_wf_ids:
  "db_wf db \<longleftrightarrow> 1 \<le> Requests_identity db
     \<and> (\<forall>i \<in> set (map Request.Id (Requests db)). 1 \<le> i \<and> i < Requests_identity db)"
  by (auto simp: db_wf_def list_all_iff)

lemma next_number_ids:
  "next_number db = (if map Request.Id (Requests db) = [] then 1
                     else Max (set (map Request.Id (Requests db))) + 1)"
  by (simp add: next_number_Max)

lemma same_ids:
  assumes "map Request.Id (Requests db') = map Request.Id (Requests db)"
      and "Requests_identity db' = Requests_identity db"
  shows "db_wf db' = db_wf db" and "next_number db' = next_number db"
  using assms by (simp_all only: db_wf_ids next_number_ids)

lemma assign_request_ids:
  "map Request.Id (Requests (fst (route_assign_request u request_id role_id db)))
     = map Request.Id (Requests db)
   \<and> Requests_identity (fst (route_assign_request u request_id role_id db)) = Requests_identity db"
  by (auto simp: route_assign_request_def assign_request_def o_def
      split: sum.splits option.splits prod.splits)

lemma admin_reply_ids:
  "map Request.Id (Requests (fst (route_admin_reply cfg clock u request_id status_id subject body attachment db)))
     = map Request.Id (Requests db)
   \<and> Requests_identity (fst (route_admin_reply cfg clock u request_id status_id subject body attachment db))
     = Requests_identity db"
proof (cases "get_current_user u db")
  case (Inl e)
  then show ?thesis by (simp add: route_admin_reply_def)
next
  case (Inr user)
  let ?r = "admin_reply cfg clock request_id status_id subject body attachment user db"
  have r: "fst (route_admin_reply cfg clock u request_id status_id subject body attachment db) = fst ?r"
    using Inr by (simp add: route_admin_reply_def split: prod.splits)
  have "map Request.Id (Requests (fst ?r)) = map Request.Id (Requests db)
      \<and> Requests_identity (fst ?r) = Requests_identity db"
  proof (cases "find (\<lambda>r. Request.Id r = request_id) (Requests db)")
    case None
    then show ?thesis by (simp add: admin_reply_def)
  next
    case (Some req)
    show ?thesis
    proof (cases attachment)
      case None
      then show ?thesis using Some
        by (auto simp: admin_reply_def Let_def o_def split: option.splits)
    next
      case (Some a)
      obtain name content where "a = (name, content)" by (cases a)
      then show ?thesis using Some \<open>find (\<lambda>r. Request.Id r = request_id) (Requests db) = Some req\<close>
        by (auto simp: admin_reply_def Let_def o_def split: option.splits)
    qed
  qed
  then show ?thesis using r by simp
qed

lemma create_request_wf:
  assumes "db_wf db"
  shows "db_wf (fst (create_request cfg clock f user db))
       \<and> next_number db \<le> next_number (fst (create_request cfg clock f user db))"
proof (cases "validate_projection (form.ProjectionId f) db")
  case (Inl u)
  then obtain fs where "create_request cfg clock f user db =
           (db\<lparr>files := fs\<rparr>, [],
            error_response ''Invalid ProjectionId'' (Some Invalid_ProjectionId_ar) None)"
    using create_request_rejected by blast
  then show ?thesis using assms by (simp add: db_wf_def next_number_files)
next
  case (Inr p)
  let ?r = "create_request cfg clock f user db"
  have h: "?r = (fst ?r, fst (snd ?r), snd (snd ?r))" by simp
  note a = create_request_accepted [OF Inr h]
  then obtain r where r: "Requests (fst ?r) = Requests db @ [r]"
      "Request.Id r = Requests_identity db" by blast
  have i: "Requests_identity (fst ?r) = Requests_identity db + 1" using a by blast
  have w: "db_wf (fst ?r)" using assms r i by (auto simp: db_wf_def list_all_iff)
  have le: "\<forall>x \<in> set (Requests db). Request.Id x \<le> Requests_identity db"
    using assms by (auto simp: db_wf_def list_all_iff)
  have "Max (Request.Id ` set (Requests (fst ?r))) = Requests_identity db"
    unfolding r(1) using le r(2) by (auto intro!: Max_eqI)
  then have n1: "next_number (fst ?r) = Requests_identity db + 1"
    using r(1) by (simp add: next_number_Max)
  have n0: "next_number db \<le> Requests_identity db"
  proof (cases "Requests db = []")
    case True
    then show ?thesis using assms by (simp add: next_number_Max db_wf_def)
  next
    case False
    then have "Max (Request.Id ` set (Requests db)) \<in> Request.Id ` set (Requests db)"
      by (intro Max_in) auto
    then have "Max (Request.Id ` set (Requests db)) < Requests_identity db"
      using assms by (auto simp: db_wf_def list_all_iff)
    then have "Max (Request.Id ` set (Requests db)) + 1 \<le> Requests_identity db"
      by linarith
    then show ?thesis using False by (simp only: next_number_Max if_False)
  qed
  show ?thesis using w n0 n1 by simp
qed

lemma step_wf:
  assumes "db_wf db"
  shows "db_wf (fst (step cfg c db)) \<and> next_number db \<le> next_number (fst (step cfg c db))"
proof (cases c)
  case (Create_request clock f user)
  then show ?thesis using create_request_wf [OF assms, of cfg clock f user]
    by (simp add: case_prod_beta)
next
  case (Assign_request u request_id role_id)
  then show ?thesis
    using assms same_ids [OF assign_request_ids [THEN conjunct1] assign_request_ids [THEN conjunct2],
        of u request_id role_id db]
    by (simp add: case_prod_beta)
next
  case (List_requests u page limit)
  then show ?thesis using assms
    by (auto simp: route_list_requests_def list_requests_def Let_def split: sum.splits prod.splits)
next
  case (Get_request_details u request_id)
  then show ?thesis using assms
    by (auto simp: route_get_request_details_def get_request_details_def
        split: sum.splits prod.splits option.splits)
next
  case (Admin_reply clock u request_id status_id subject body attachment)
  then show ?thesis
    using assms same_ids [OF admin_reply_ids [THEN conjunct1] admin_reply_ids [THEN conjunct2],
        of cfg clock u request_id status_id subject body attachment db]
    by simp
qed

lemma run_wf:
  "db_wf db \<Longrightarrow> db_wf (run cfg calls db) \<and> next_number db \<le> next_number (run cfg calls db)"
proof (induction calls arbitrary: db)
  case Nil
  then show ?case by simp
next
  case (Cons c cs)
  have s: "db_wf (fst (step cfg c db)) \<and> next_number db \<le> next_number (fst (step cfg c db))"
    using Cons.prems by (rule step_wf)
  then have "db_wf (run cfg cs (fst (step cfg c db)))
      \<and> next_number (fst (step cfg c db)) \<le> next_number (run cfg cs (fst (step cfg c db)))"
    using Cons.IH by blast
  then show ?case using s by simp
qed


lemma next_number_pos: "db_wf db \<Longrightarrow> 1 \<le> next_number db"
proof (cases "Requests db = []")
  case True
  then show ?thesis by (simp add: next_number_Max)
next
  case False
  assume w: "db_wf db"
  have "Max (Request.Id ` set (Requests db)) \<in> Request.Id ` set (Requests db)"
    using False by (intro Max_in) auto
  then have "1 \<le> Max (Request.Id ` set (Requests db))"
    using w by (auto simp: db_wf_def list_all_iff)
  then have "1 \<le> Max (Request.Id ` set (Requests db)) + 1" by linarith
  then show ?thesis using False by (simp only: next_number_Max if_False)
qed

lemma create_request_next_number:
  assumes "db_wf db"
      and "validate_projection (form.ProjectionId f) db = Inr p"
  shows "next_number db < next_number (fst (create_request cfg clock f user db))"
proof -
  let ?r = "create_request cfg clock f user db"
  have h: "?r = (fst ?r, fst (snd ?r), snd (snd ?r))" by simp
  note a = create_request_accepted [OF assms(2) h]
  then obtain r where r: "Requests (fst ?r) = Requests db @ [r]"
      "Request.Id r = Requests_identity db" by blast
  have le: "\<forall>x \<in> set (Requests db). Request.Id x \<le> Requests_identity db"
    using assms(1) by (auto simp: db_wf_def list_all_iff)
  have "Max (Request.Id ` set (Requests (fst ?r))) = Requests_identity db"
    unfolding r(1) using le r(2) by (auto intro!: Max_eqI)
  then have n1: "next_number (fst ?r) = Requests_identity db + 1"
    using r(1) by (simp add: next_number_Max)
  have n0: "next_number db \<le> Requests_identity db"
  proof (cases "Requests db = []")
    case True
    then show ?thesis using assms(1) by (simp add: next_number_Max db_wf_def)
  next
    case False
    then have "Max (Request.Id ` set (Requests db)) \<in> Request.Id ` set (Requests db)"
      by (intro Max_in) auto
    then have "Max (Request.Id ` set (Requests db)) < Requests_identity db"
      using assms(1) by (auto simp: db_wf_def list_all_iff)
    then have "Max (Request.Id ` set (Requests db)) + 1 \<le> Requests_identity db"
      by linarith
    then show ?thesis using False by (simp only: next_number_Max if_False)
  qed
  show ?thesis using n0 n1 by simp
qed

lemma created_number_accepted:
  assumes "create_request cfg clock f user db = (db', tasks, response)"
      and "map_of response ''success'' = Some (JBool True)"
  shows "created_number response = Some (request_number (now_number clock) (next_number db))"
proof -
  obtain p where p: "validate_projection (form.ProjectionId f) db = Inr p"
    using create_request_success_accepted [OF assms] by blast
  obtain ap where "response = success_response ''Request created successfully''
                   (Some Request_created_ar)
                   (Some (JDict [(''request_id'', JInt (Requests_identity db)),
                                 (''request_number'',
                                    JStr (request_number (now_number clock) (next_number db))),
                                 (''AttachPath'', ap)]))"
    using create_request_accepted [OF p assms(1)] by blast
  then show ?thesis by (simp add: created_number_def success_response_def j_data_def)
qed

lemma zfill_length: "w \<le> length (zfill w s)"
  by (cases s) (auto simp: zfill_def)

text \<open>
  Claim C1. In a database whose identity counter lies beyond every request id (ids from
  1), a successful creation returns the number \<open>RQ-\<close>, the four-digit year, two-digit
  month and two-digit day of the local date read at the creation, \<open>-\<close>, and \<open>seq\<close>
  padded with zeros to at least four digits, where \<open>seq\<close> is the highest existing
  request id plus one, or 1 when there is no request; the padded digits read back as
  \<open>seq\<close>. Whatever calls of the workflow follow, a later successful creation on the same
  local date returns a number, and a different one.
\<close>

theorem request_number_format_unique:
  assumes "db_wf db"
      and "create_request cfg clock f user db = (db1, tasks1, response1)"
      and "map_of response1 ''success'' = Some (JBool True)"
      and "seq = (if Requests db = [] then 1 else Max (Request.Id ` set (Requests db)) + 1)"
  shows "created_number response1
           = Some (''RQ-'' @ zfill 4 (str_nat (year (now_number clock)))
                     @ zfill 2 (str_nat (month (now_number clock)))
                     @ zfill 2 (str_nat (day (now_number clock)))
                     @ ''-'' @ zfill 4 (str_int seq))
       \<and> 4 \<le> length (zfill 4 (str_int seq))
       \<and> int_of_str (zfill 4 (str_int seq)) = seq
       \<and> (\<forall>calls clock' f' user' db3 tasks2 response2.
             create_request cfg clock' f' user' (run cfg calls db1) = (db3, tasks2, response2)
           \<and> map_of response2 ''success'' = Some (JBool True)
           \<and> year (now_number clock') = year (now_number clock)
           \<and> month (now_number clock') = month (now_number clock)
           \<and> day (now_number clock') = day (now_number clock)
           \<longrightarrow> (\<exists>n2. created_number response2 = Some n2)
               \<and> created_number response2 \<noteq> created_number response1)"
proof -
  have s: "seq = next_number db" using assms(4) by (simp add: next_number_Max)
  have pos: "1 \<le> seq" using s next_number_pos [OF assms(1)] by simp
  have n1: "created_number response1 = Some (request_number (now_number clock) seq)"
    using created_number_accepted [OF assms(2,3)] s by simp
  have fmt: "created_number response1
           = Some (''RQ-'' @ zfill 4 (str_nat (year (now_number clock)))
                     @ zfill 2 (str_nat (month (now_number clock)))
                     @ zfill 2 (str_nat (day (now_number clock)))
                     @ ''-'' @ zfill 4 (str_int seq))"
    using n1 by (simp add: request_number_def strftime_Ymd_def)
  have rb: "int_of_str (zfill 4 (str_int seq)) = seq"
    using pos by (simp add: str_int_def int_of_str_zfill)
  obtain p where p: "validate_projection (form.ProjectionId f) db = Inr p"
    using create_request_success_accepted [OF assms(2,3)] by blast
  have db1: "db1 = fst (create_request cfg clock f user db)" using assms(2) by simp
  have lt: "next_number db < next_number db1"
    unfolding db1 using assms(1) p by (rule create_request_next_number)
  have w1: "db_wf db1"
    unfolding db1 using create_request_wf [OF assms(1)] by blast
  have later: "(\<exists>n2. created_number response2 = Some n2)
               \<and> created_number response2 \<noteq> created_number response1"
    if c2: "create_request cfg clock' f' user' (run cfg calls db1) = (db3, tasks2, response2)"
      and s2: "map_of response2 ''success'' = Some (JBool True)"
      and d: "year (now_number clock') = year (now_number clock)
            \<and> month (now_number clock') = month (now_number clock)
            \<and> day (now_number clock') = day (now_number clock)"
    for calls clock' f' user' db3 tasks2 response2
  proof -
    let ?db2 = "run cfg calls db1"
    have le: "next_number db1 \<le> next_number ?db2" using run_wf [OF w1] by blast
    have n2: "created_number response2
                = Some (request_number (now_number clock') (next_number ?db2))"
      using created_number_accepted [OF c2 s2] by simp
    have "created_number response2 \<noteq> created_number response1"
    proof
      assume "created_number response2 = created_number response1"
      then have "request_number (now_number clock') (next_number ?db2)
                   = request_number (now_number clock) seq"
        using n1 n2 by simp
      then have "zfill 4 (str_int (next_number ?db2)) = zfill 4 (str_int seq)"
        using d by (simp add: request_number_def strftime_Ymd_def)
      moreover have "0 \<le> next_number ?db2" using lt le s pos by linarith
      moreover have "0 \<le> seq" using pos by linarith
      ultimately have "next_number ?db2 = seq" by (intro zfill_str_int_inj)
      then show False using lt le s by linarith
    qed
    then show ?thesis using n2 by simp
  qed
  show ?thesis using fmt zfill_length [of 4 "str_int seq"] rb later by blast
qed

theorem request_number_format_unique_witness:
  "db_wf db0
   \<and> map_of (snd (snd (create_request cfg0 clock0 form0 citizen2 db0))) ''success'' = Some (JBool True)
   \<and> map_of (snd (snd (create_request cfg0 clock0 form0 citizen3
         (run cfg0 [Assign_request 1 1 5] (fst (create_request cfg0 clock0 form0 citizen2 db0))))))
       ''success'' = Some (JBool True)
   \<and> created_number (snd (snd (create_request cfg0 clock0 form0 citizen2 db0)))
       = Some ''RQ-20250101-0001''
   \<and> created_number (snd (snd (create_request cfg0 clock0 form0 citizen3
         (run cfg0 [Assign_request 1 1 5] (fst (create_request cfg0 clock0 form0 citizen2 db0))))))
       \<noteq> created_number (snd (snd (create_request cfg0 clock0 form0 citizen2 db0)))"
proof -
  let ?r1 = "create_request cfg0 clock0 form0 citizen2 db0"
  let ?db2 = "run cfg0 [Assign_request 1 1 5] (fst ?r1)"
  let ?r2 = "create_request cfg0 clock0 form0 citizen3 ?db2"
  have w: "db_wf db0" by (simp add: db_wf_def db0_def)
  have h1: "?r1 = (fst ?r1, fst (snd ?r1), snd (snd ?r1))" by simp
  have h2: "?r2 = (fst ?r2, fst (snd ?r2), snd (snd ?r2))" by simp
  have v: "validate_projection (form.ProjectionId form0) d = Inr None" for d
    by (simp add: validate_projection_def form0_def)
  have s1: "map_of (snd (snd ?r1)) ''success'' = Some (JBool True)"
    using create_request_accepted [OF v h1] by (auto simp: success_response_def)
  have s2: "map_of (snd (snd ?r2)) ''success'' = Some (JBool True)"
    using create_request_accepted [OF v h2] by (auto simp: success_response_def)
  have q: "(1::int) = (if Requests db0 = [] then 1 else Max (Request.Id ` set (Requests db0)) + 1)"
    by (simp add: db0_def)
  have y: "year (now_number clock0) = 2025" "month (now_number clock0) = 1"
      "day (now_number clock0) = 1"
    by (simp_all add: clock0_def t1_def)
  have z1: "zfill 4 (str_nat 2025) = ''2025''" by code_simp
  have z2: "zfill 2 (str_nat (Suc 0)) = ''01''" by code_simp
  have z3: "zfill 4 (str_int 1) = ''0001''" by code_simp
  note z = z1 z2 z3
  note t = request_number_format_unique [OF w h1 s1 q]
  have a: "created_number (snd (snd ?r1)) = Some ''RQ-20250101-0001''"
    using t by (simp add: y z)
  have "\<forall>calls clock' f' user' db3 tasks2 response2.
             create_request cfg0 clock' f' user' (run cfg0 calls (fst ?r1)) = (db3, tasks2, response2)
           \<and> map_of response2 ''success'' = Some (JBool True)
           \<and> year (now_number clock') = year (now_number clock0)
           \<and> month (now_number clock') = month (now_number clock0)
           \<and> day (now_number clock') = day (now_number clock0)
           \<longrightarrow> (\<exists>n2. created_number response2 = Some n2)
               \<and> created_number response2 \<noteq> created_number (snd (snd ?r1))"
    using t by blast
  then have b: "created_number (snd (snd ?r2)) \<noteq> created_number (snd (snd ?r1))"
    using h2 s2 by blast
  show ?thesis using w s1 s2 a b by blast
qed

section \<open>The admin listing\<close>






section \<open>Errors: the envelope and the gates\<close>



















end
